theory Spec2Isabelle
  imports Complex_Main "HOL-Library.Char_ord" "HOL-Library.List_Lexorder"
begin

section \<open>Student performance dashboard: a model of app.py\<close>

text \<open>
  Conventions of the embedding.
  \<^item> A Python \<open>str\<close> is a \<open>string\<close>; a \<open>char\<close> stands for one code point below 256
    (ASCII and Latin-1), and \<open>of_char\<close> reads its code point.
  \<^item> A Python \<open>float\<close> is a \<open>real\<close>: comparisons and sums are those of the
    mathematical values, rounding error of the binary representation is not modelled.
  \<^item> A Python \<open>int\<close> is an \<open>int\<close>.
  \<^item> A table of the SQLite database is the list of its rows, in insertion order.
\<close>

subsection \<open>Python string primitives used by the program\<close>

text \<open>\<open>str.isspace\<close> and the regex class \<open>\s\<close> on code points below 256.\<close>

definition isspace :: "char \<Rightarrow> bool" where
  "isspace c = (of_char c \<in> {9, 10, 11, 12, 13, 28, 29, 30, 31, 32, 133, 160 :: nat})"




text \<open>\<open>s.strip(chars)\<close>: drop the characters of the class from both ends.\<close>

definition strip_chars :: "(char \<Rightarrow> bool) \<Rightarrow> string \<Rightarrow> string" where
  "strip_chars P s = rev (dropWhile P (rev (dropWhile P s)))"

definition strip :: "string \<Rightarrow> string" where
  "strip s = strip_chars isspace s"

subsection \<open>Column normalizer (standardize_column_name)\<close>






subsection \<open>Performance tier\<close>

text \<open>
  The if-chain that init_database (lines 385-392) and teacher_add_student
  (lines 789-796) both apply to the final average score.
\<close>

definition performance_tier :: "real \<Rightarrow> string" where
  "performance_tier final_average_score =
     (if final_average_score \<ge> 80 then ''Excellent''
      else if final_average_score \<ge> 65 then ''Good''
      else if final_average_score \<ge> 50 then ''Average''
      else ''Needs Improvement'')"

subsection \<open>Python integer parsing and formatting\<close>

definition is_digit :: "char \<Rightarrow> bool" where
  "is_digit c = (CHR ''0'' \<le> c \<and> c \<le> CHR ''9'')"

definition digit_val :: "char \<Rightarrow> nat" where
  "digit_val c = of_char c - 48"

text \<open>
  The digits of an integer literal after its first digit: digits, each optionally
  preceded by one underscore. The accumulator holds the value read so far.
\<close>

fun int_digits :: "nat \<Rightarrow> string \<Rightarrow> nat option" where
  "int_digits acc [] = Some acc"
| "int_digits acc (c # cs) =
     (if is_digit c then int_digits (10 * acc + digit_val c) cs
      else if c = CHR ''_'' then
        (case cs of
           [] \<Rightarrow> None
         | d # ds \<Rightarrow> if is_digit d then int_digits (10 * acc + digit_val d) ds else None)
      else None)"

text \<open>
  \<open>int(s)\<close> for a string, base 10: surrounding whitespace is dropped, one sign is
  allowed, then comes a literal. \<open>None\<close> is the ValueError.
\<close>

definition int_of_str :: "string \<Rightarrow> int option" where
  "int_of_str s =
     (let t = strip s;
          neg = (t \<noteq> [] \<and> hd t = CHR ''-'');
          u = (if t \<noteq> [] \<and> (hd t = CHR ''-'' \<or> hd t = CHR ''+'') then tl t else t)
      in case u of
           [] \<Rightarrow> None
         | c # cs \<Rightarrow>
             if is_digit c
             then map_option (\<lambda>n. if neg then - int n else int n) (int_digits (digit_val c) cs)
             else None)"

text \<open>\<open>str(n)\<close> for a natural number, and the format specification \<open>04d\<close>.\<close>

fun str_nat :: "nat \<Rightarrow> string" where
  "str_nat n =
     (if n < 10 then [char_of (48 + n)]
      else str_nat (n div 10) @ [char_of (48 + n mod 10)])"

declare str_nat.simps [simp del]

definition zfill :: "nat \<Rightarrow> string \<Rightarrow> string" where
  "zfill w s = replicate (w - length s) CHR ''0'' @ s"

definition format_04d :: "int \<Rightarrow> string" where
  "format_04d n =
     (if n < 0 then CHR ''-'' # zfill 3 (str_nat (nat (- n))) else zfill 4 (str_nat (nat n)))"

subsection \<open>The students table\<close>

text \<open>
  A row of the table \<open>students\<close>. The eighteen exam columns are kept as the
  dictionary \<open>exam_scores\<close> the program builds, keyed by column name.
\<close>

record student =
  student_id :: string
  student_name :: string
  grade_level :: int
  "section" :: string
  gender :: string
  race_ethnicity :: string
  parental_education :: string
  lunch :: string
  test_prep :: string
  attendance_percent :: real
  days_present :: int
  days_absent :: int
  total_days :: int
  exam_scores :: "(string \<times> real) list"
  final_total_score :: real
  final_average_score :: real
  final_performance_level :: string
  photo_filename :: "string option"

subsection \<open>get_next_student_id\<close>

text \<open>
  \<open>SELECT student_id FROM students ORDER BY student_id DESC LIMIT 1\<close>: the greatest
  identifier in the order of the column's collation, which compares the strings
  character by character.
\<close>

fun last_student_id :: "student list \<Rightarrow> string option" where
  "last_student_id [] = None"
| "last_student_id (s # ss) = Some (fold max (map student_id ss) (student_id s))"

definition get_next_student_id :: "student list \<Rightarrow> string" where
  "get_next_student_id students =
     (case last_student_id students of
        None \<Rightarrow> ''S0001''
      | Some last_id \<Rightarrow>
          if last_id \<noteq> [] \<and> hd last_id = CHR ''S'' then
            (case int_of_str (tl last_id) of
               Some num \<Rightarrow> CHR ''S'' # format_04d (num + 1)
             | None \<Rightarrow> ''S0001'')
          else ''S0001'')"

text \<open>
  The identifiers of the usual form, \<open>S\<close> and exactly four digits, and the number
  such an identifier carries.
\<close>

definition four_digit_id :: "string \<Rightarrow> bool" where
  "four_digit_id i = (length i = 5 \<and> hd i = CHR ''S'' \<and> list_all is_digit (tl i))"

definition id_number :: "string \<Rightarrow> nat" where
  "id_number i = foldl (\<lambda>a c. 10 * a + digit_val c) 0 (tl i)"

text \<open>A row with a given identifier and otherwise blank columns, for concrete stores.\<close>

definition student_with_id :: "string \<Rightarrow> student" where
  "student_with_id i =
     \<lparr>student_id = i, student_name = [], grade_level = 0, section = [], gender = [],
      race_ethnicity = [], parental_education = [], lunch = [], test_prep = [],
      attendance_percent = 0, days_present = 0, days_absent = 0, total_days = 0,
      exam_scores = [], final_total_score = 0, final_average_score = 0,
      final_performance_level = [], photo_filename = None\<rparr>"

subsection \<open>The teacher_section_map table and the access policy\<close>

text \<open>
  A row of \<open>teacher_section_map\<close>. The table is declared with
  \<open>UNIQUE(grade_level, section)\<close>; the flag \<open>is_active\<close> is 0 or 1.
\<close>

record section_map =
  tsm_id :: int
  teacher_user_id :: int
  tsm_grade_level :: int
  tsm_section :: string
  is_active :: int

text \<open>
  \<open>get_teacher_assignment\<close>: the first active row of the teacher, as
  \<open>fetchone\<close> returns it; \<open>None\<close> stands for the pair \<open>(None, None)\<close>.
\<close>

definition get_teacher_assignment :: "section_map list \<Rightarrow> int \<Rightarrow> (int \<times> string) option" where
  "get_teacher_assignment tsm user_id =
     (case filter (\<lambda>m. teacher_user_id m = user_id \<and> is_active m = 1) tsm of
        [] \<Rightarrow> None
      | mapping # _ \<Rightarrow> Some (tsm_grade_level mapping, tsm_section mapping))"

text \<open>
  Python's truth value of the pair's components: \<open>not teacher_grade\<close> holds for
  \<open>None\<close> and for 0, \<open>not teacher_section\<close> for \<open>None\<close> and for the empty string.
\<close>

definition no_assignment :: "(int \<times> string) option \<Rightarrow> bool" where
  "no_assignment a =
     (case a of
        None \<Rightarrow> True
      | Some (teacher_grade, teacher_section) \<Rightarrow> teacher_grade = 0 \<or> teacher_section = [])"

text \<open>
  \<open>check_teacher_access\<close>; \<open>role\<close> is \<open>session.get('role')\<close>, \<open>None\<close> when the
  session has none.
\<close>

definition check_teacher_access ::
  "string option \<Rightarrow> section_map list \<Rightarrow> int \<Rightarrow> string \<Rightarrow> int \<Rightarrow> bool" where
  "check_teacher_access role tsm student_grade student_section user_id =
     (if role = Some ''admin'' then True
      else if role \<noteq> Some ''teacher'' then False
      else if no_assignment (get_teacher_assignment tsm user_id) then False
      else get_teacher_assignment tsm user_id = Some (student_grade, student_section))"

subsection \<open>admin_assign_teacher\<close>

text \<open>
  \<open>INSERT INTO teacher_section_map\<close>: the table's uniqueness constraint on
  \<open>(grade_level, section)\<close> looks at every row, active or not; \<open>None\<close> is the
  IntegrityError. The new row's id is one past the greatest id (rows are never deleted).
\<close>

definition insert_section_map ::
  "section_map list \<Rightarrow> int \<Rightarrow> int \<Rightarrow> string \<Rightarrow> int \<Rightarrow> section_map list option" where
  "insert_section_map tsm teacher grade sect active =
     (if list_ex (\<lambda>m. tsm_grade_level m = grade \<and> tsm_section m = sect) tsm then None
      else Some (tsm @
        [\<lparr>tsm_id = fold max (map tsm_id tsm) 0 + 1, teacher_user_id = teacher,
          tsm_grade_level = grade, tsm_section = sect, is_active = active\<rparr>]))"

text \<open>\<open>UPDATE teacher_section_map SET is_active = 0 WHERE teacher_user_id = ?\<close>\<close>

definition deactivate_teacher :: "section_map list \<Rightarrow> int \<Rightarrow> section_map list" where
  "deactivate_teacher tsm teacher =
     map (\<lambda>m. if teacher_user_id m = teacher then m\<lparr>is_active := 0\<rparr> else m) tsm"

datatype assign_outcome = Assigned | Already_assigned | Assign_error

text \<open>
  \<open>admin_assign_teacher\<close> on the parsed form values. The update and the insert run in
  one transaction, committed after the insert; when the insert raises, the handler
  flashes the error, nothing is committed and the table is as before.
\<close>

definition admin_assign_teacher ::
  "section_map list \<Rightarrow> int \<Rightarrow> int \<Rightarrow> string \<Rightarrow> assign_outcome \<times> section_map list" where
  "admin_assign_teacher tsm teacher grade sect =
     (if list_ex (\<lambda>m. tsm_grade_level m = grade \<and> tsm_section m = sect \<and> is_active m = 1) tsm
      then (Already_assigned, tsm)
      else
        (case insert_section_map (deactivate_teacher tsm teacher) teacher grade sect 1 of
           None \<Rightarrow> (Assign_error, tsm)
         | Some tsm' \<Rightarrow> (Assigned, tsm')))"

text \<open>An active row claims a pair; at most one active row for each pair.\<close>

definition claims_pair :: "int \<Rightarrow> string \<Rightarrow> section_map \<Rightarrow> bool" where
  "claims_pair grade sect m = (tsm_grade_level m = grade \<and> tsm_section m = sect \<and> is_active m = 1)"

definition one_active_per_pair :: "section_map list \<Rightarrow> bool" where
  "one_active_per_pair tsm =
     list_all (\<lambda>m. length (filter (claims_pair (tsm_grade_level m) (tsm_section m)) tsm) \<le> 1) tsm"

text \<open>
  The tables the program can produce, starting from the empty table: by
  admin_assign_teacher, and by the inserts of an active row that seed_default_data
  (lines 486-489) and admin_add_teacher (lines 1147-1150) make after finding no row for
  the pair.
\<close>

inductive assign_reachable :: "section_map list \<Rightarrow> bool" where
  empty_table: "assign_reachable []"
| assign_step: "assign_reachable tsm \<Longrightarrow>
     assign_reachable (snd (admin_assign_teacher tsm teacher grade sect))"
| insert_step: "assign_reachable tsm \<Longrightarrow>
     insert_section_map tsm teacher grade sect 1 = Some tsm' \<Longrightarrow> assign_reachable tsm'"

definition pair_of :: "section_map \<Rightarrow> int \<times> string" where
  "pair_of m = (tsm_grade_level m, tsm_section m)"

subsection \<open>Python numeric primitives\<close>

text \<open>\<open>int(x)\<close> of a float truncates toward zero.\<close>

definition int_of_float :: "real \<Rightarrow> int" where
  "int_of_float x = (if 0 \<le> x then \<lfloor>x\<rfloor> else \<lceil>x\<rceil>)"

text \<open>\<open>round(x)\<close> is the nearest integer, a tie going to the even one.\<close>

definition round_half_even :: "real \<Rightarrow> int" where
  "round_half_even x =
     (let f = \<lfloor>x\<rfloor>; d = x - of_int f
      in if d < 1 / 2 then f else if 1 / 2 < d then f + 1 else if even f then f else f + 1)"

text \<open>\<open>round(x, 2)\<close>\<close>

definition round2 :: "real \<Rightarrow> real" where
  "round2 x = of_int (round_half_even (x * 100)) / 100"

text \<open>
  The module \<open>random\<close> is Python's, not the program's: it is a parameter of the
  model, a generator state of type \<open>'g\<close> and the four functions the program calls,
  each returning its value and the next state.
\<close>

record 'g random_module =
  seed :: "int \<Rightarrow> 'g"
  randint :: "int \<Rightarrow> int \<Rightarrow> 'g \<Rightarrow> int \<times> 'g"
  choice :: "string list \<Rightarrow> 'g \<Rightarrow> string \<times> 'g"
  uniform :: "real \<Rightarrow> real \<Rightarrow> 'g \<Rightarrow> real \<times> 'g"

text \<open>A generator for concrete runs: it has one state and returns the least value.\<close>

definition least_random :: "unit random_module" where
  "least_random =
     \<lparr>seed = (\<lambda>n. ()), randint = (\<lambda>a b g. (a, g)), choice = (\<lambda>xs g. (hd xs, g)),
      uniform = (\<lambda>a b g. (a, g))\<rparr>"

subsection \<open>Exam columns and derived fields\<close>

definition subjects :: "string list" where
  "subjects = [''math'', ''reading'', ''writing'', ''science'', ''social_science'',
     ''computer_science'']"

definition exams :: "string list" where
  "exams = [''unit_test'', ''midterm'', ''final'']"

text \<open>The column name \<open>f'{subject}_{exam}_score'\<close>.\<close>

definition score_column :: "string \<Rightarrow> string \<Rightarrow> string" where
  "score_column subject exam = subject @ ''_'' @ exam @ ''_score''"

text \<open>\<open>d.get(k, default)\<close> on a dictionary of floats.\<close>

definition dict_get :: "(string \<times> real) list \<Rightarrow> string \<Rightarrow> real \<Rightarrow> real" where
  "dict_get d k dflt = (case map_of d k of None \<Rightarrow> dflt | Some v \<Rightarrow> v)"

text \<open>
  \<open>int((attendance_percent / 100) * total_days)\<close>, the expression of lines 336 and
  774.
\<close>

definition days_present_of :: "real \<Rightarrow> int \<Rightarrow> int" where
  "days_present_of attendance ndays = int_of_float ((attendance / 100) * of_int ndays)"

text \<open>The final scores of the six subjects, read from the dictionary with default 0.\<close>

definition final_scores_of :: "(string \<times> real) list \<Rightarrow> real list" where
  "final_scores_of scores = map (\<lambda>s. dict_get scores (score_column s ''final'') 0) subjects"

subsection \<open>teacher_add_student\<close>


text \<open>
  The form: each text field is \<open>request.form.get(field, '')\<close>, and
  \<open>form_attendance_percent\<close> is what \<open>float(request.form.get('attendance_percent', 100))\<close>
  returns, \<open>None\<close> when it raises ValueError.
\<close>




definition exam_columns :: "string list" where
  "exam_columns = concat (map (\<lambda>subject. map (score_column subject) exams) subjects)"



subsection \<open>Dashboard statistics\<close>

text \<open>
  The KPIs of teacher_dashboard (lines 654-668) over the selected rows: the number of
  students, the mean final average, the pass rate and the at-risk count, before the
  template rounds the two means to two decimals.
\<close>

definition overall_avg :: "student list \<Rightarrow> real" where
  "overall_avg students =
     (if length students > 0
      then sum_list (map final_average_score students) / of_nat (length students) else 0)"

definition pass_count :: "student list \<Rightarrow> nat" where
  "pass_count students = length (filter (\<lambda>s. final_average_score s \<ge> 50) students)"

definition pass_rate :: "student list \<Rightarrow> real" where
  "pass_rate students =
     (if length students > 0
      then (of_nat (pass_count students) / of_nat (length students)) * 100 else 0)"

definition at_risk_count :: "student list \<Rightarrow> nat" where
  "at_risk_count students =
     (if length students > 0
      then length (filter (\<lambda>s. final_average_score s < 50 \<or> attendance_percent s < 75) students)
      else 0)"

text \<open>The fraction of passing records, as the specification words the pass rate.\<close>

definition passing_fraction :: "student list \<Rightarrow> real" where
  "passing_fraction students =
     of_nat (length (filter (\<lambda>s. final_average_score s \<ge> 50) students)) /
     of_nat (length students)"


subsection \<open>The dataset\<close>

text \<open>
  A numeric cell as the program reads it: \<open>Missing\<close> is NaN or a column the dataset
  does not have (\<open>pd.isna\<close> holds), \<open>Number x\<close> a value that \<open>float()\<close> reads as
  \<open>x\<close> and \<open>int()\<close> truncates, \<open>Malformed\<close> a value on which they raise ValueError.
\<close>

datatype cell = Missing | Number real | Malformed

text \<open>
  A row of the data frame, after the column names went through
  \<open>standardize_column_name\<close>: the columns the program reads as text, each holding
  \<open>str(value)\<close> (\<open>nan\<close> for an empty cell), and the columns it reads as numbers.
\<close>

record csv_row =
  text_columns :: "(string \<times> string) list"
  number_columns :: "(string \<times> cell) list"

text \<open>\<open>str(row.get(column, default))\<close> and \<open>row.get(column, None)\<close>\<close>

definition row_text :: "csv_row \<Rightarrow> string \<Rightarrow> string \<Rightarrow> string" where
  "row_text row column dflt =
     (case map_of (text_columns row) column of None \<Rightarrow> dflt | Some s \<Rightarrow> s)"

definition row_number :: "csv_row \<Rightarrow> string \<Rightarrow> cell" where
  "row_number row column =
     (case map_of (number_columns row) column of None \<Rightarrow> Missing | Some c \<Rightarrow> c)"

text \<open>\<open>row.get(column, row.get(other, None))\<close>: the second column only when the first is absent.\<close>

definition row_number2 :: "csv_row \<Rightarrow> string \<Rightarrow> string \<Rightarrow> cell" where
  "row_number2 row column other =
     (case map_of (number_columns row) column of
        None \<Rightarrow> row_number row other
      | Some c \<Rightarrow> c)"

subsection \<open>Steps of the import: a result or an exception, and the next generator state\<close>

datatype import_error = ValueError

type_synonym ('a, 'g) step = "'g \<Rightarrow> (import_error + 'a) \<times> 'g"

definition returns :: "'a \<Rightarrow> ('a, 'g) step" where
  "returns x g = (Inr x, g)"

definition raises :: "import_error \<Rightarrow> ('a, 'g) step" where
  "raises e g = (Inl e, g)"

definition draws :: "('g \<Rightarrow> 'a \<times> 'g) \<Rightarrow> ('a, 'g) step" where
  "draws m g = (case m g of (x, g') \<Rightarrow> (Inr x, g'))"

definition and_then :: "('a, 'g) step \<Rightarrow> ('a \<Rightarrow> ('b, 'g) step) \<Rightarrow> ('b, 'g) step" where
  "and_then m f g =
     (case m g of
        (Inl e, g') \<Rightarrow> (Inl e, g')
      | (Inr x, g') \<Rightarrow> f x g')"

subsection \<open>Record synthesis (the loop body of init_database)\<close>

definition name_list :: "string list" where
  "name_list =
     [''Aarav Singh'', ''Kavya Khan'', ''Avni Mehta'', ''Priya Ahuja'', ''Ananya Jain'',
      ''Rahul Verma'', ''Aarav Gupta'', ''Ishaan Khan'', ''Saanvi Roy'', ''Aarav Ahuja'',
      ''Ishaan Ahuja'', ''Rahul Khan'', ''Riya Jain'', ''Krishna Sharma'', ''Yash Nair'',
      ''Siddharth Kulkarni'', ''Neha Singh'', ''Avni Reddy'', ''Yash Das'', ''Arjun Gupta'',
      ''Pooja Mehta'', ''Nikhil Chatterjee'', ''Vikram Singh'', ''Simran Verma'', ''Tanvi Bose'',
      ''Sakshi Mehta'', ''Naina Joshi'', ''Ananya Ahuja'', ''Meera Roy'', ''Harsh Chatterjee'',
      ''Shreya Reddy'', ''Siddharth Gupta'', ''Aditi Khan'', ''Yash Patel'', ''Ananya Khan'',
      ''Ira Mehta'', ''Pooja Singh'', ''Riya Chatterjee'', ''Diya Chatterjee'', ''Nikhil Reddy'',
      ''Priya Singh'', ''Siddharth Gupta T.'', ''Zara Nair'', ''Sakshi Khan'', ''Diya Bose'',
      ''Pooja Singh U.'', ''Siddharth Ahuja'', ''Kavya Das'', ''Zara Mehta'']"

text \<open>\<open>f'S{idx+1:04d}'\<close>\<close>

definition index_id :: "nat \<Rightarrow> string" where
  "index_id idx = CHR ''S'' # format_04d (int idx + 1)"

text \<open>\<open>not s or s == 'nan'\<close>\<close>

definition blank :: "string \<Rightarrow> bool" where
  "blank s = (s = [] \<or> s = ''nan'')"

text \<open>Lines 282-287; the caller adds the result to \<open>student_ids_seen\<close>.\<close>

definition import_student_id :: "nat \<Rightarrow> csv_row \<Rightarrow> string set \<Rightarrow> string" where
  "import_student_id idx row student_ids_seen =
     (let sid = strip (row_text row ''student_id'' (index_id idx));
          sid = (if blank sid then index_id idx else sid);
          sid = (if sid \<in> student_ids_seen then index_id idx else sid)
      in sid)"

definition import_student_name :: "nat \<Rightarrow> csv_row \<Rightarrow> string" where
  "import_student_name idx row =
     (let n = strip (row_text row ''student_name'' [])
      in if blank n then name_list ! (idx mod length name_list) else n)"

text \<open>A text field, or \<open>random.choice\<close> of its candidates when it is blank.\<close>

definition text_or_choice :: "'g random_module \<Rightarrow> string \<Rightarrow> string list \<Rightarrow> (string, 'g) step" where
  "text_or_choice R v candidates =
     (let s = strip v in if blank s then draws (choice R candidates) else returns s)"

definition import_grade_level :: "'g random_module \<Rightarrow> csv_row \<Rightarrow> (int, 'g) step" where
  "import_grade_level R row =
     (case row_number row ''grade_level'' of
        Missing \<Rightarrow> draws (randint R 9 12)
      | Number x \<Rightarrow> returns (int_of_float x)
      | Malformed \<Rightarrow> raises ValueError)"

definition import_attendance_percent :: "'g random_module \<Rightarrow> csv_row \<Rightarrow> (real, 'g) step" where
  "import_attendance_percent R row =
     (case row_number row ''attendance_percent'' of
        Missing \<Rightarrow> and_then (draws (uniform R 60 100)) (\<lambda>x. returns (round2 x))
      | Number x \<Rightarrow> returns x
      | Malformed \<Rightarrow> raises ValueError)"

definition import_total_days :: "csv_row \<Rightarrow> (int, 'g) step" where
  "import_total_days row =
     (case row_number row ''total_days'' of
        Missing \<Rightarrow> returns 200
      | Number x \<Rightarrow> returns (int_of_float x)
      | Malformed \<Rightarrow> raises ValueError)"

text \<open>The dictionary \<open>subjects\<close> of lines 339-353: each subject with its two base columns.\<close>

definition base_columns :: "(string \<times> string \<times> string) list" where
  "base_columns =
     [(''math'', ''math_score'', ''mathscore''),
      (''reading'', ''reading_score'', ''readingscore''),
      (''writing'', ''writing_score'', ''writingscore''),
      (''science'', ''science_score'', ''sciencescore''),
      (''social_science'', ''social_science_score'', ''socialsciencescore''),
      (''computer_science'', ''computer_science_score'', ''computersciencescore'')]"

definition import_base_score ::
  "'g random_module \<Rightarrow> csv_row \<Rightarrow> string \<Rightarrow> string \<Rightarrow> (real, 'g) step" where
  "import_base_score R row column other =
     (case row_number2 row column other of
        Missing \<Rightarrow> and_then (draws (randint R 30 100)) (\<lambda>n. returns (of_int n))
      | Number x \<Rightarrow> returns x
      | Malformed \<Rightarrow> raises ValueError)"

definition import_exam_score ::
  "'g random_module \<Rightarrow> csv_row \<Rightarrow> real \<Rightarrow> string \<Rightarrow> (real, 'g) step" where
  "import_exam_score R row base_score col_name =
     (case row_number row col_name of
        Missing \<Rightarrow>
          and_then (draws (uniform R (- 10) 10))
            (\<lambda>noise. returns (round2 (max 0 (min 100 (base_score + noise)))))
      | Number x \<Rightarrow> returns x
      | Malformed \<Rightarrow> raises ValueError)"

fun import_exams ::
  "'g random_module \<Rightarrow> csv_row \<Rightarrow> real \<Rightarrow> string \<Rightarrow> string list \<Rightarrow>
   ((string \<times> real) list, 'g) step" where
  "import_exams R row base_score subject [] = returns []"
| "import_exams R row base_score subject (exam # later) =
     and_then (import_exam_score R row base_score (score_column subject exam)) (\<lambda>score.
     and_then (import_exams R row base_score subject later) (\<lambda>rest.
     returns ((score_column subject exam, score) # rest)))"

fun import_subjects ::
  "'g random_module \<Rightarrow> csv_row \<Rightarrow> (string \<times> string \<times> string) list \<Rightarrow>
   ((string \<times> real) list, 'g) step" where
  "import_subjects R row [] = returns []"
| "import_subjects R row ((subject, column, other) # later) =
     and_then (import_base_score R row column other) (\<lambda>base_score.
     and_then (import_exams R row base_score subject exams) (\<lambda>scores.
     and_then (import_subjects R row later) (\<lambda>rest.
     returns (scores @ rest))))"

text \<open>The record of lines 373-413, from the row's fields.\<close>

definition import_record ::
  "string \<Rightarrow> string \<Rightarrow> int \<Rightarrow> string \<Rightarrow> string \<Rightarrow> string \<Rightarrow> string \<Rightarrow> string \<Rightarrow> string \<Rightarrow>
   real \<Rightarrow> int \<Rightarrow> (string \<times> real) list \<Rightarrow> student" where
  "import_record sid name grade sect gen race parental lun prep attendance ndays scores =
     (let present = days_present_of attendance ndays;
          absent = ndays - present;
          final_scores = final_scores_of scores;
          final_total = sum_list final_scores;
          final_average =
            (if final_scores \<noteq> [] then final_total / of_nat (length final_scores) else 0)
      in \<lparr>student_id = sid, student_name = name, grade_level = grade, section = sect,
          gender = gen, race_ethnicity = race, parental_education = parental, lunch = lun,
          test_prep = prep, attendance_percent = attendance, days_present = present,
          days_absent = absent, total_days = ndays, exam_scores = scores,
          final_total_score = round2 final_total,
          final_average_score = round2 final_average,
          final_performance_level = performance_tier final_average,
          photo_filename = None\<rparr>)"

definition import_row ::
  "'g random_module \<Rightarrow> nat \<Rightarrow> csv_row \<Rightarrow> string set \<Rightarrow> (student, 'g) step" where
  "import_row R idx row student_ids_seen =
     (let sid = import_student_id idx row student_ids_seen;
          name = import_student_name idx row
      in
      and_then (import_grade_level R row) (\<lambda>grade.
      and_then (text_or_choice R (row_text row ''section'' []) [''A'', ''B'', ''C'', ''D'']) (\<lambda>sect.
      and_then (text_or_choice R (row_text row ''gender'' []) [''male'', ''female'']) (\<lambda>gen.
      and_then (text_or_choice R
          (row_text row ''race_ethnicity'' (row_text row ''raceethnicity'' []))
          [''group A'', ''group B'', ''group C'', ''group D'', ''group E'']) (\<lambda>race.
      and_then (text_or_choice R
          (row_text row ''parental_education'' (row_text row ''parentallevelofeducation'' []))
          [''high school'', ''some high school'', ''some college'',
           ''associate's degree'', ''bachelor's degree'', ''master's degree'']) (\<lambda>parental.
      and_then (text_or_choice R (row_text row ''lunch'' []) [''standard'', ''free/reduced'']) (\<lambda>lun.
      and_then (text_or_choice R
          (row_text row ''test_prep'' (row_text row ''testpreparationcourse'' []))
          [''none'', ''completed'']) (\<lambda>prep.
      and_then (import_attendance_percent R row) (\<lambda>attendance.
      and_then (import_total_days row) (\<lambda>ndays.
      and_then (import_subjects R row base_columns) (\<lambda>scores.
      returns (import_record sid name grade sect gen race parental lun prep
                 attendance ndays scores))))))))))))"

text \<open>The loop over \<open>df.iterrows()\<close>, the index counting from \<open>idx\<close>.\<close>

fun import_rows ::
  "'g random_module \<Rightarrow> nat \<Rightarrow> csv_row list \<Rightarrow> string set \<Rightarrow> (student list, 'g) step" where
  "import_rows R idx [] student_ids_seen = returns []"
| "import_rows R idx (row # later) student_ids_seen =
     and_then (import_row R idx row student_ids_seen) (\<lambda>s.
     and_then (import_rows R (Suc idx) later (insert (student_id s) student_ids_seen)) (\<lambda>rest.
     returns (s # rest)))"

subsection \<open>init_database, the students table\<close>

text \<open>\<open>INSERT OR REPLACE INTO students\<close>: a row of the same identifier is deleted first.\<close>

definition insert_or_replace :: "student list \<Rightarrow> student \<Rightarrow> student list" where
  "insert_or_replace students s =
     filter (\<lambda>t. student_id t \<noteq> student_id s) students @ [s]"

text \<open>
  What one run of \<open>init_database\<close> does to the students table. \<open>csv\<close> is the data
  frame, \<open>None\<close> when the file is not there. The result holds \<open>students_data\<close> (or
  the exception that ended the loop, or \<open>None\<close> when no import ran), the table and the
  generator. The deletion and the inserts are one transaction: an exception in the loop
  commits nothing.
\<close>

definition init_database ::
  "'g random_module \<Rightarrow> bool \<Rightarrow> bool \<Rightarrow> csv_row list option \<Rightarrow> student list \<times> 'g \<Rightarrow>
   (import_error + student list) option \<times> student list \<times> 'g" where
  "init_database R db_exists force_reimport csv st =
     (let (students, g) = st in
      if db_exists \<and> \<not> force_reimport then (None, students, g)
      else
        (case csv of
           None \<Rightarrow> (None, students, g)
         | Some rows \<Rightarrow>
             (case import_rows R 0 rows {} g of
                (Inl e, g') \<Rightarrow> (Some (Inl e), students, g')
              | (Inr students_data, g') \<Rightarrow>
                  if students_data \<noteq> []
                  then (Some (Inr students_data),
                        fold (\<lambda>s table. insert_or_replace table s) students_data
                          (if force_reimport then [] else students), g')
                  else (Some (Inr students_data), students, g'))))"

text \<open>
  One process: the module seeds the generator with 42 when it is loaded, then
  \<open>init_database\<close> runs.
\<close>

definition process_start ::
  "'g random_module \<Rightarrow> bool \<Rightarrow> bool \<Rightarrow> csv_row list option \<Rightarrow> student list \<Rightarrow>
   (import_error + student list) option \<times> student list \<times> 'g" where
  "process_start R db_exists force_reimport csv students =
     init_database R db_exists force_reimport csv (students, seed R 42)"


definition stored :: "(import_error + student list) option \<times> student list \<times> 'g \<Rightarrow> student list" where
  "stored run = fst (snd run)"


text \<open>Concrete inputs: a dataset row with only an identifier, and the scores the
  generator \<open>least_random\<close> gives such a row.\<close>

definition row_with_id :: "string \<Rightarrow> csv_row" where
  "row_with_id i = \<lparr>text_columns = [(''student_id'', i)], number_columns = []\<rparr>"

definition least_scores :: "(string \<times> real) list" where
  "least_scores = map (\<lambda>c. (c, 20)) exam_columns"




text \<open>The identifiers the loop gives a batch: each row's identifier, the set of the
  identifiers seen growing by it.\<close>

fun batch_ids :: "nat \<Rightarrow> csv_row list \<Rightarrow> string set \<Rightarrow> string list" where
  "batch_ids idx [] student_ids_seen = []"
| "batch_ids idx (row # later) student_ids_seen =
     import_student_id idx row student_ids_seen #
     batch_ids (Suc idx) later (insert (import_student_id idx row student_ids_seen) student_ids_seen)"

section \<open>Properties\<close>

subsection \<open>Performance tier\<close>

text \<open>
  Claim C1. For every average score a, the tier is Excellent iff a >= 80, Good iff
  65 <= a < 80, Average iff 50 <= a < 65 and Needs Improvement iff a < 50; at the
  boundaries, tier(80.0) is Excellent, tier(79.99) is Good, tier(50.0) is Average and
  tier(49.99) is Needs Improvement.
\<close>

theorem performance_tier_thresholds:
  "(performance_tier a = ''Excellent'' \<longleftrightarrow> 80 \<le> a) \<and>
   (performance_tier a = ''Good'' \<longleftrightarrow> 65 \<le> a \<and> a < 80) \<and>
   (performance_tier a = ''Average'' \<longleftrightarrow> 50 \<le> a \<and> a < 65) \<and>
   (performance_tier a = ''Needs Improvement'' \<longleftrightarrow> a < 50) \<and>
   performance_tier 80.0 = ''Excellent'' \<and>
   performance_tier 79.99 = ''Good'' \<and>
   performance_tier 50.0 = ''Average'' \<and>
   performance_tier 49.99 = ''Needs Improvement''"
  by (simp add: performance_tier_def)


subsection \<open>Column normalizer\<close>



















subsection \<open>Next student identifier\<close>

lemma foldl_digits_acc:
  "foldl (\<lambda>a c. 10 * a + digit_val c) a ds = a * 10 ^ length ds + foldl (\<lambda>a c. 10 * a + digit_val c) 0 ds"
proof (induction ds arbitrary: a)
  case Nil
  then show ?case by simp
next
  case (Cons d ds)
  show ?case
    using Cons[of "10 * a + digit_val d"] Cons[of "digit_val d"]
    by (simp add: algebra_simps)
qed

lemma is_digit_val: "is_digit c \<Longrightarrow> digit_val c < 10"
  by (auto simp: is_digit_def digit_val_def less_eq_char_def)

lemma foldl_digits_bound:
  "list_all is_digit ds \<Longrightarrow> foldl (\<lambda>a c. 10 * a + digit_val c) 0 ds < 10 ^ length ds"
proof (induction ds rule: rev_induct)
  case Nil
  then show ?case by simp
next
  case (snoc d ds)
  then have "foldl (\<lambda>a c. 10 * a + digit_val c) 0 ds < 10 ^ length ds" and "digit_val d < 10"
    by (simp_all add: is_digit_val)
  then show ?case by simp
qed

lemma digit_val_mono: "is_digit a \<Longrightarrow> is_digit b \<Longrightarrow> a < b \<Longrightarrow> digit_val a < digit_val b"
  by (auto simp: is_digit_def digit_val_def less_eq_char_def less_char_def)

lemma digits_le_value:
  "length xs = length ys \<Longrightarrow> list_all is_digit xs \<Longrightarrow> list_all is_digit ys \<Longrightarrow> xs \<le> ys \<Longrightarrow>
   foldl (\<lambda>a c. 10 * a + digit_val c) 0 xs \<le> foldl (\<lambda>a c. 10 * a + digit_val c) 0 ys"
proof (induction xs ys rule: list_induct2)
  case Nil
  then show ?case by simp
next
  case (Cons a x b y)
  let ?v = "foldl (\<lambda>a c. 10 * a + digit_val c) 0"
  have vx: "?v (a # x) = digit_val a * 10 ^ length x + ?v x"
    using foldl_digits_acc[of "digit_val a" x] by simp
  have vy: "?v (b # y) = digit_val b * 10 ^ length y + ?v y"
    using foldl_digits_acc[of "digit_val b" y] by simp
  from Cons.prems have "a < b \<or> (a = b \<and> x \<le> y)" by simp
  then show ?case
  proof
    assume "a < b"
    then have "digit_val a + 1 \<le> digit_val b"
      using Cons.prems digit_val_mono[of a b] by simp
    then have "(digit_val a + 1) * 10 ^ length x \<le> digit_val b * 10 ^ length x"
      by (rule mult_le_mono1)
    moreover have "?v x < 10 ^ length x"
      using Cons.prems by (simp add: foldl_digits_bound)
    ultimately show ?thesis
      unfolding vx vy using Cons.hyps by (simp add: algebra_simps)
  next
    assume "a = b \<and> x \<le> y"
    then show ?thesis
      unfolding vx vy using Cons by simp
  qed
qed

lemma int_digits_all:
  "list_all is_digit ds \<Longrightarrow> int_digits acc ds = Some (foldl (\<lambda>a c. 10 * a + digit_val c) acc ds)"
  by (induction ds arbitrary: acc) auto

lemma is_digit_not_space: "is_digit c \<Longrightarrow> \<not> isspace c"
  by (auto simp: is_digit_def isspace_def less_eq_char_def)

lemma dropWhile_hd_id: "s \<noteq> [] \<Longrightarrow> \<not> P (hd s) \<Longrightarrow> dropWhile P s = s"
  by (cases s) auto

lemma strip_chars_none:
  "s \<noteq> [] \<Longrightarrow> \<not> P (hd s) \<Longrightarrow> \<not> P (last s) \<Longrightarrow> strip_chars P s = s"
  by (simp add: strip_chars_def dropWhile_hd_id hd_rev)

lemma four_digit_id_parse:
  assumes "four_digit_id i"
  shows "int_of_str (tl i) = Some (int (id_number i))"
proof -
  from assms have "length (tl i) = 4" and "list_all is_digit (tl i)"
    by (simp_all add: four_digit_id_def)
  then obtain c cs where t: "tl i = c # cs" and dg: "list_all is_digit (c # cs)"
    by (cases "tl i") auto
  have "is_digit (hd (tl i))" "is_digit (last (tl i))"
    using t dg by (auto simp: list_all_iff)
  then have "strip (tl i) = tl i"
    using t by (simp add: strip_def strip_chars_none is_digit_not_space)
  then have st: "strip (c # cs) = c # cs" by (simp add: t)
  have sign: "c \<noteq> CHR ''-''" "c \<noteq> CHR ''+''"
    using dg by (auto simp: is_digit_def less_eq_char_def)
  have "int_digits (digit_val c) cs = Some (foldl (\<lambda>a c. 10 * a + digit_val c) (digit_val c) cs)"
    using dg by (simp add: int_digits_all)
  then show ?thesis
    using dg sign by (simp add: int_of_str_def st t id_number_def Let_def)
qed


lemma str_nat_value: "foldl (\<lambda>a c. 10 * a + digit_val c) 0 (str_nat n) = n"
proof (induction n rule: str_nat.induct)
  case (1 n)
  have d: "\<And>k. k < 10 \<Longrightarrow> digit_val (char_of (48 + k :: nat)) = k"
    by (simp add: digit_val_def)
  show ?case
    using 1 d[of n] d[of "n mod 10"] by (subst str_nat.simps) auto
qed

lemma zfill_value:
  "foldl (\<lambda>a c. 10 * a + digit_val c) 0 (zfill w s) = foldl (\<lambda>a c. 10 * a + digit_val c) 0 s"
proof -
  have "foldl (\<lambda>a c. 10 * a + digit_val c) 0 (replicate k CHR ''0'') = 0" for k
    by (induction k) (simp_all add: digit_val_def)
  then show ?thesis by (simp add: zfill_def)
qed

lemma next_id_number: "id_number (CHR ''S'' # format_04d (int n)) = n"
  by (simp add: id_number_def format_04d_def zfill_value str_nat_value)

lemma last_student_id_max:
  assumes "last_student_id students = Some m"
  shows "m \<in> student_id ` set students" and "\<forall>a \<in> student_id ` set students. a \<le> m"
proof -
  from assms obtain s ss where st: "students = s # ss" by (cases students) auto
  have "fold max (map student_id ss) (student_id s) = Max (set (student_id s # map student_id ss))"
    by (rule Max.set_eq_fold[symmetric])
  then have m: "m = Max (set (map student_id (s # ss)))"
    using assms st by simp
  show "m \<in> student_id ` set students"
    using Max_in[of "set (map student_id (s # ss))"] unfolding m st by simp
  show "\<forall>a \<in> student_id ` set students. a \<le> m"
    unfolding m st by (auto intro!: Max_ge)
qed


lemma four_digit_id_split: "four_digit_id a \<Longrightarrow> a = CHR ''S'' # tl a"
  by (cases a) (auto simp: four_digit_id_def)

lemma next_id_four_digit:
  assumes wf: "list_all four_digit_id (map student_id students)"
  shows "get_next_student_id students =
        (if students = [] then ''S0001''
         else CHR ''S'' # format_04d (int (Max (set (map (id_number \<circ> student_id) students))) + 1)) \<and>
      id_number (get_next_student_id students) =
        (if students = [] then 1 else Max (set (map (id_number \<circ> student_id) students)) + 1) \<and>
      get_next_student_id students \<notin> set (map student_id students)"
proof (cases students)
  case Nil
  then show ?thesis by (simp add: get_next_student_id_def id_number_def digit_val_def)
next
  case (Cons s ss)
  then obtain m where m: "last_student_id students = Some m" by simp
  note mx = last_student_id_max[OF m]
  have wf': "\<And>a. a \<in> student_id ` set students \<Longrightarrow> four_digit_id a"
    using wf by (auto simp: list_all_iff)
  have fm: "four_digit_id m" using mx(1) wf' by blast
  let ?N = "set (map (id_number \<circ> student_id) students)"
  have ge: "id_number a \<le> id_number m" if "a \<in> student_id ` set students" for a
  proof -
    have "a \<le> m" using mx(2) that by blast
    moreover have "length (tl a) = length (tl m)"
      "list_all is_digit (tl a)" "list_all is_digit (tl m)"
      using wf'[OF that] fm by (simp_all add: four_digit_id_def)
    moreover have "a = CHR ''S'' # tl a" "m = CHR ''S'' # tl m"
      using wf'[OF that] fm by (simp_all add: four_digit_id_split[symmetric])
    ultimately have "tl a \<le> tl m"
      by (metis Cons_le_Cons less_irrefl)
    then show ?thesis
      unfolding id_number_def
      using \<open>length (tl a) = length (tl m)\<close> \<open>list_all is_digit (tl a)\<close>
        \<open>list_all is_digit (tl m)\<close> by (intro digits_le_value)
  qed
  have Mx: "Max ?N = id_number m"
  proof (rule Max_eqI)
    show "finite ?N" by simp
    show "id_number m \<in> ?N" using mx(1) by auto
    show "\<And>y. y \<in> ?N \<Longrightarrow> y \<le> id_number m" using ge by auto
  qed
  have hdm: "m \<noteq> []" "hd m = CHR ''S''" using fm by (auto simp: four_digit_id_def)
  have res: "get_next_student_id students = CHR ''S'' # format_04d (int (id_number m) + 1)"
    using hdm by (simp add: get_next_student_id_def m four_digit_id_parse[OF fm])
  have num: "id_number (get_next_student_id students) = id_number m + 1"
    unfolding res using next_id_number[of "id_number m + 1"] by (simp add: add.commute)
  have fresh: "get_next_student_id students \<notin> set (map student_id students)"
  proof
    assume "get_next_student_id students \<in> set (map student_id students)"
    then have "id_number (get_next_student_id students) \<le> id_number m"
      using ge by simp
    with num show False by simp
  qed
  show ?thesis using Cons res num fresh Mx by simp
qed


lemma char_of_digit_codes:
  "char_of (48::nat) = CHR ''0''" "char_of (49::nat) = CHR ''1''" "char_of (50::nat) = CHR ''2''"
  "char_of (51::nat) = CHR ''3''" "char_of (52::nat) = CHR ''4''" "char_of (53::nat) = CHR ''5''"
  "char_of (54::nat) = CHR ''6''" "char_of (55::nat) = CHR ''7''" "char_of (56::nat) = CHR ''8''"
  "char_of (57::nat) = CHR ''9''"
  by code_simp+

lemma student_id_with_id: "student_id (student_with_id i) = i"
  by (simp add: student_with_id_def)

lemmas int_of_str_eval =
  int_of_str_def strip_def strip_chars_def isspace_def is_digit_def digit_val_def
  less_eq_char_def less_char_def Let_def

lemma replicate_small:
  "replicate 1 c = [c]" "replicate 2 c = [c, c]" "replicate 3 c = [c, c, c]"
  by (simp_all add: numeral_2_eq_2 numeral_3_eq_3)

lemmas format_04d_eval =
  format_04d_def zfill_def str_nat.simps char_of_digit_codes replicate_small

lemma next_id_five_digit_clash:
  "get_next_student_id [student_with_id ''S9999'', student_with_id ''S10000''] = ''S10000''"
proof -
  have "max ''S9999'' ''S10000'' = ''S9999''"
    by (simp add: max_def less_eq_char_def less_char_def)
  moreover have "int_of_str ''9999'' = Some 9999"
    by (simp add: int_of_str_eval)
  moreover have "format_04d 10000 = ''10000''"
    by (simp add: format_04d_eval)
  ultimately show ?thesis
    by (simp add: get_next_student_id_def student_id_with_id)
qed


text \<open>
  Claim C10. In a store whose identifiers all are S followed by exactly four digits,
  get_next_student_id returns S followed by the zero-padded successor of the greatest
  stored number (S0001 for the empty store), and that identifier is not in the store.
  Beyond four digits freshness is lost, since the greatest identifier is taken in
  string order: with S9999 and S10000 stored, the result is S10000 again.
\<close>

theorem get_next_student_id_successor:
  "(list_all four_digit_id (map student_id students) \<longrightarrow>
      get_next_student_id students =
        (if students = [] then ''S0001''
         else CHR ''S'' #
           format_04d (int (Max (set (map (id_number \<circ> student_id) students))) + 1)) \<and>
      id_number (get_next_student_id students) =
        (if students = [] then 1
         else Max (set (map (id_number \<circ> student_id) students)) + 1) \<and>
      get_next_student_id students \<notin> set (map student_id students)) \<and>
   get_next_student_id [student_with_id ''S9999'', student_with_id ''S10000'']
     \<in> set (map student_id [student_with_id ''S9999'', student_with_id ''S10000''])"
proof (rule conjI)
  show "list_all four_digit_id (map student_id students) \<longrightarrow>
      get_next_student_id students =
        (if students = [] then ''S0001''
         else CHR ''S'' #
           format_04d (int (Max (set (map (id_number \<circ> student_id) students))) + 1)) \<and>
      id_number (get_next_student_id students) =
        (if students = [] then 1
         else Max (set (map (id_number \<circ> student_id) students)) + 1) \<and>
      get_next_student_id students \<notin> set (map student_id students)"
    using next_id_four_digit [of students] by (rule impI)
  show "get_next_student_id [student_with_id ''S9999'', student_with_id ''S10000'']
     \<in> set (map student_id [student_with_id ''S9999'', student_with_id ''S10000''])"
    unfolding next_id_five_digit_clash by (simp add: student_id_with_id)
qed

theorem get_next_student_id_successor_witness:
  "list_all four_digit_id (map student_id
      [student_with_id ''S0001'', student_with_id ''S0042'', student_with_id ''S0007'']) \<and>
   get_next_student_id
      [student_with_id ''S0001'', student_with_id ''S0042'', student_with_id ''S0007''] = ''S0043'' \<and>
   get_next_student_id
      [student_with_id ''S0001'', student_with_id ''S0042'', student_with_id ''S0007'']
     \<notin> set (map student_id
      [student_with_id ''S0001'', student_with_id ''S0042'', student_with_id ''S0007''])"
proof -
  let ?db = "[student_with_id ''S0001'', student_with_id ''S0042'', student_with_id ''S0007'']"
  have h: "list_all four_digit_id (map student_id ?db)"
    by (simp add: student_id_with_id four_digit_id_def is_digit_def less_eq_char_def)
  have "max (max ''S0001'' ''S0042'') ''S0007'' = ''S0042''"
    by (simp add: max_def less_eq_char_def less_char_def)
  moreover have "int_of_str ''0042'' = Some 42"
    by (simp add: int_of_str_eval)
  moreover have "format_04d 43 = ''0043''"
    by (simp add: format_04d_eval)
  ultimately have v: "get_next_student_id ?db = ''S0043''"
    by (simp add: get_next_student_id_def student_id_with_id max.commute)
  from get_next_student_id_successor [of ?db] h
  have "get_next_student_id ?db \<notin> set (map student_id ?db)"
    by blast
  with h v show ?thesis by blast
qed

subsection \<open>Access policy\<close>

lemma check_teacher_access_admin:
  "check_teacher_access (Some ''admin'') tsm student_grade student_section user_id"
  by (simp add: check_teacher_access_def)

lemma check_teacher_access_other_role:
  "role \<noteq> Some ''admin'' \<Longrightarrow> role \<noteq> Some ''teacher'' \<Longrightarrow>
   \<not> check_teacher_access role tsm student_grade student_section user_id"
  by (simp add: check_teacher_access_def)

lemma check_teacher_access_unassigned:
  "get_teacher_assignment tsm user_id = None \<Longrightarrow>
   \<not> check_teacher_access (Some ''teacher'') tsm student_grade student_section user_id"
  by (simp add: check_teacher_access_def no_assignment_def)

lemma check_teacher_access_assigned:
  "get_teacher_assignment tsm user_id = Some (g, s) \<Longrightarrow> g \<noteq> 0 \<Longrightarrow> s \<noteq> [] \<Longrightarrow>
   check_teacher_access (Some ''teacher'') tsm student_grade student_section user_id
     \<longleftrightarrow> (g, s) = (student_grade, student_section)"
  by (simp add: check_teacher_access_def no_assignment_def)

text \<open>
  Claim C2. The access check is true for an admin, false for every role but admin and
  teacher, and for a teacher true iff the teacher's active assignment equals the
  student's grade and section. The code departs from it where the assigned grade is 0:
  the teacher of user id 7, actively assigned to grade 0 section A, is refused a student
  of grade 0 section A, because the test for a missing assignment reads the grade 0 as
  missing.
\<close>

theorem check_teacher_access_grade_zero:
  "get_teacher_assignment
     [\<lparr>tsm_id = 1, teacher_user_id = 7, tsm_grade_level = 0, tsm_section = ''A'',
        is_active = 1\<rparr>] 7 = Some (0, ''A'') \<and>
   \<not> check_teacher_access (Some ''teacher'')
     [\<lparr>tsm_id = 1, teacher_user_id = 7, tsm_grade_level = 0, tsm_section = ''A'',
        is_active = 1\<rparr>] 0 ''A'' 7"
  by (simp add: check_teacher_access_def get_teacher_assignment_def no_assignment_def)

subsection \<open>Teacher assignment\<close>

lemma admin_assign_teacher_taken:
  "list_ex (claims_pair grade sect) tsm \<Longrightarrow>
   admin_assign_teacher tsm teacher grade sect = (Already_assigned, tsm)"
  by (simp add: admin_assign_teacher_def claims_pair_def[abs_def])

lemma pair_of_deactivate: "map pair_of (deactivate_teacher tsm teacher) = map pair_of tsm"
  by (induction tsm) (auto simp: deactivate_teacher_def pair_of_def)

lemma insert_section_map_distinct:
  "distinct (map pair_of tsm) \<Longrightarrow> insert_section_map tsm teacher grade sect active = Some tsm' \<Longrightarrow>
   distinct (map pair_of tsm')"
  by (auto simp: insert_section_map_def list_ex_iff pair_of_def split: if_splits)

lemma admin_assign_teacher_distinct:
  "distinct (map pair_of tsm) \<Longrightarrow>
   distinct (map pair_of (snd (admin_assign_teacher tsm teacher grade sect)))"
  using insert_section_map_distinct[of "deactivate_teacher tsm teacher" teacher grade sect 1]
  by (auto simp: admin_assign_teacher_def pair_of_deactivate split: option.splits)

lemma assign_reachable_distinct: "assign_reachable tsm \<Longrightarrow> distinct (map pair_of tsm)"
  by (induction rule: assign_reachable.induct)
     (auto simp: admin_assign_teacher_distinct dest: insert_section_map_distinct)

lemma filter_pair_le_one:
  "distinct (map pair_of tsm) \<Longrightarrow> length (filter (\<lambda>m. pair_of m = p \<and> Q m) tsm) \<le> 1"
proof (induction tsm)
  case Nil
  then show ?case by simp
next
  case (Cons m tsm)
  show ?case
  proof (cases "pair_of m = p")
    case True
    with Cons.prems have "filter (\<lambda>m. pair_of m = p \<and> Q m) tsm = []"
      by (auto simp: filter_empty_conv image_iff)
    then show ?thesis by simp
  next
    case False
    with Cons show ?thesis by simp
  qed
qed

lemma distinct_one_active: "distinct (map pair_of tsm) \<Longrightarrow> one_active_per_pair tsm"
proof -
  assume d: "distinct (map pair_of tsm)"
  have "claims_pair g s = (\<lambda>m. pair_of m = (g, s) \<and> is_active m = 1)" for g s
    by (auto simp: claims_pair_def pair_of_def)
  then show ?thesis
    using filter_pair_le_one[OF d] by (simp add: one_active_per_pair_def list_all_iff)
qed

lemma assign_reachable_one_active: "assign_reachable tsm \<Longrightarrow> one_active_per_pair tsm"
  by (simp add: assign_reachable_distinct distinct_one_active)

lemma admin_assign_teacher_atomic:
  "admin_assign_teacher tsm teacher grade sect = (outcome, tsm') \<Longrightarrow>
   (outcome \<noteq> Assigned \<and> tsm' = tsm) \<or>
   (outcome = Assigned \<and>
    tsm' = deactivate_teacher tsm teacher @
      [\<lparr>tsm_id = fold max (map tsm_id (deactivate_teacher tsm teacher)) 0 + 1,
        teacher_user_id = teacher, tsm_grade_level = grade, tsm_section = sect, is_active = 1\<rparr>])"
  by (auto simp: admin_assign_teacher_def insert_section_map_def split: if_splits option.splits)

text \<open>
  Claim C3. Creating an active mapping is rejected exactly when an active mapping
  already claims the pair, and otherwise the teacher's old mapping is deactivated and
  the new one created in one step, with at most one active mapping for each pair. The
  lemmas above give the rejection on an active claim, the single step and the
  invariant. The code departs from the claim in the other direction of "exactly": the
  uniqueness constraint of the table counts inactive rows too. Teacher 1 is assigned
  to 9 A and then to 9 B, which deactivates the row of 9 A; no active mapping claims
  9 A any more, yet assigning teacher 2 to 9 A fails and leaves the table as it was.
\<close>

theorem admin_assign_teacher_inactive_pair_blocked:
  "admin_assign_teacher [] 1 9 ''A'' =
     (Assigned, [\<lparr>tsm_id = 1, teacher_user_id = 1, tsm_grade_level = 9, tsm_section = ''A'', is_active = 1\<rparr>]) \<and>
   admin_assign_teacher
     [\<lparr>tsm_id = 1, teacher_user_id = 1, tsm_grade_level = 9, tsm_section = ''A'', is_active = 1\<rparr>] 1 9 ''B'' =
     (Assigned,
      [\<lparr>tsm_id = 1, teacher_user_id = 1, tsm_grade_level = 9, tsm_section = ''A'', is_active = 0\<rparr>,
       \<lparr>tsm_id = 2, teacher_user_id = 1, tsm_grade_level = 9, tsm_section = ''B'', is_active = 1\<rparr>]) \<and>
   \<not> list_ex (claims_pair 9 ''A'')
      [\<lparr>tsm_id = 1, teacher_user_id = 1, tsm_grade_level = 9, tsm_section = ''A'', is_active = 0\<rparr>,
       \<lparr>tsm_id = 2, teacher_user_id = 1, tsm_grade_level = 9, tsm_section = ''B'', is_active = 1\<rparr>] \<and>
   admin_assign_teacher
      [\<lparr>tsm_id = 1, teacher_user_id = 1, tsm_grade_level = 9, tsm_section = ''A'', is_active = 0\<rparr>,
       \<lparr>tsm_id = 2, teacher_user_id = 1, tsm_grade_level = 9, tsm_section = ''B'', is_active = 1\<rparr>] 2 9 ''A'' =
     (Assign_error,
      [\<lparr>tsm_id = 1, teacher_user_id = 1, tsm_grade_level = 9, tsm_section = ''A'', is_active = 0\<rparr>,
       \<lparr>tsm_id = 2, teacher_user_id = 1, tsm_grade_level = 9, tsm_section = ''B'', is_active = 1\<rparr>])"
  by (simp add: admin_assign_teacher_def insert_section_map_def deactivate_teacher_def claims_pair_def)

subsection \<open>Import: evaluation on concrete rows\<close>


lemmas step_eval = returns_def raises_def draws_def and_then_def

lemmas row_eval = row_text_def row_number_def row_number2_def blank_def

lemma strip_S0002: "strip ''S0002'' = ''S0002''"
  by (simp add: strip_def strip_chars_def isspace_def)

lemma index_id_first_two: "index_id 0 = ''S0001''" "index_id (Suc 0) = ''S0002''"
  by (simp_all add: index_id_def format_04d_eval)


lemma import_student_id_row0: "import_student_id 0 (row_with_id ''S0002'') {} = ''S0002''"
  by (simp add: import_student_id_def row_with_id_def row_eval strip_S0002 index_id_first_two)

lemma import_student_id_row1: "import_student_id (Suc 0) (row_with_id ''S0002'') {''S0002''} = ''S0002''"
  by (simp add: import_student_id_def row_with_id_def row_eval strip_S0002 index_id_first_two)

lemma round2_eval: "round2 60 = 60" "round2 20 = 20" "round2 50 = 50"
  by (simp_all add: round2_def round_half_even_def)


lemma strip_Nil: "strip [] = []"
  by (simp add: strip_def strip_chars_def)

lemma import_subjects_least:
  "import_subjects least_random (row_with_id i) base_columns g = (Inr least_scores, g)"
  by (simp add: base_columns_def exams_def import_base_score_def import_exam_score_def
      row_with_id_def row_eval step_eval least_random_def round2_eval least_scores_def
      exam_columns_def subjects_def)

lemma row_text_other:
  "column \<noteq> ''student_id'' \<Longrightarrow> row_text (row_with_id i) column dflt = dflt"
  by (simp add: row_text_def row_with_id_def)

lemma text_or_choice_least: "text_or_choice least_random [] (c # cs) g = (Inr c, g)"
  by (simp add: text_or_choice_def strip_Nil blank_def draws_def least_random_def)

lemma import_numbers_least:
  "import_grade_level least_random (row_with_id i) g = (Inr 9, g)"
  "import_attendance_percent least_random (row_with_id i) g = (Inr 60, g)"
  "import_total_days (row_with_id i) g = (Inr 200, g)"
  by (simp_all add: import_grade_level_def import_attendance_percent_def import_total_days_def
      row_with_id_def row_number_def step_eval least_random_def round2_eval)

lemma import_row_least:
  "import_row least_random idx (row_with_id i) seen g =
     (Inr (import_record (import_student_id idx (row_with_id i) seen)
             (import_student_name idx (row_with_id i)) 9 ''A'' ''male'' ''group A''
             ''high school'' ''standard'' ''none'' 60 200 least_scores), g)"
  unfolding import_row_def Let_def
  by (simp add: and_then_def returns_def import_subjects_least import_numbers_least
      row_text_other text_or_choice_least)

lemma student_id_import_record:
  "student_id (import_record sid name grade sect gen race parental lun prep attendance ndays scores) = sid"
  by (simp add: import_record_def Let_def)

subsection \<open>Derived attendance days\<close>

lemma and_then_Inr:
  "and_then m f g = (Inr y, g') \<Longrightarrow> \<exists>x g1. m g = (Inr x, g1) \<and> f x g1 = (Inr y, g')"
  by (auto simp: and_then_def split: prod.splits sum.splits)

lemma returns_Inr: "returns x g = (Inr y, g') \<Longrightarrow> y = x \<and> g' = g"
  by (simp add: returns_def)


lemma import_row_record:
  "import_row R idx row seen g = (Inr s, g') \<Longrightarrow>
   \<exists>grade sect gen race parental lun prep attendance ndays scores.
     s = import_record (import_student_id idx row seen) (import_student_name idx row)
           grade sect gen race parental lun prep attendance ndays scores"
  unfolding import_row_def Let_def
  by (auto dest!: and_then_Inr returns_Inr) blast


lemma import_row_student_id:
  "import_row R idx row seen g = (Inr s, g') \<Longrightarrow> student_id s = import_student_id idx row seen"
  by (auto dest!: import_row_record simp: student_id_import_record)










lemma next_id_empty: "get_next_student_id [] = ''S0001''"
  by (simp add: get_next_student_id_def)


lemma import_student_name_row0: "import_student_name 0 (row_with_id i) = ''Aarav Singh''"
  by (simp add: import_student_name_def row_text_other strip_Nil blank_def name_list_def)







subsection \<open>Identifiers of an import batch\<close>


lemma import_rows_ids:
  "import_rows R idx rows seen g = (Inr ss, g') \<Longrightarrow> map student_id ss = batch_ids idx rows seen"
proof (induction rows arbitrary: idx seen g ss g')
  case Nil
  then show ?case by (simp add: returns_def)
next
  case (Cons row rows)
  from Cons.prems obtain s g1 rest g2 where
    r: "import_row R idx row seen g = (Inr s, g1)"
    and rs: "import_rows R (Suc idx) rows (insert (student_id s) seen) g1 = (Inr rest, g2)"
    and ss: "ss = s # rest"
    by (auto dest!: and_then_Inr returns_Inr)
  from Cons.IH[OF rs] import_row_student_id[OF r] ss show ?case by simp
qed

lemma import_rows_two_rows:
  "import_rows least_random 0 [row_with_id ''S0002'', row_with_id ''S0002''] {} () =
     (Inr [import_record ''S0002'' ''Aarav Singh'' 9 ''A'' ''male'' ''group A''
             ''high school'' ''standard'' ''none'' 60 200 least_scores,
           import_record ''S0002'' ''Kavya Khan'' 9 ''A'' ''male'' ''group A''
             ''high school'' ''standard'' ''none'' 60 200 least_scores], ())"
proof -
  have "import_student_name (Suc 0) (row_with_id ''S0002'') = ''Kavya Khan''"
    by (simp add: import_student_name_def row_text_other strip_Nil blank_def name_list_def)
  then show ?thesis
    by (simp add: import_row_least and_then_def returns_def import_student_id_row0 import_student_id_row1 import_student_name_row0
        student_id_import_record)
qed

lemma student_name_import_record:
  "student_name (import_record sid name grade sect gen race parental lun prep attendance ndays scores) = name"
  by (simp add: import_record_def Let_def)

lemma init_database_imported:
  "import_rows R 0 rows {} g = (Inr students_data, g') \<Longrightarrow> students_data \<noteq> [] \<Longrightarrow>
   \<not> (db_exists \<and> \<not> force) \<Longrightarrow>
   init_database R db_exists force (Some rows) (students, g) =
     (Some (Inr students_data),
      fold (\<lambda>s table. insert_or_replace table s) students_data (if force then [] else students),
      g')"
  by (simp add: init_database_def)

lemma init_database_unchanged:
  "stored (init_database R db_exists force csv (students, g)) = students \<or>
   (\<exists>rows students_data g'. csv = Some rows \<and> \<not> (db_exists \<and> \<not> force) \<and>
      import_rows R 0 rows {} g = (Inr students_data, g') \<and> students_data \<noteq> [])"
  by (auto simp: init_database_def stored_def split: option.splits sum.splits prod.splits)

text \<open>
  Claim C9. Each row's identifier is the provided value when present and not yet used
  in the batch, otherwise the index form S{row_index+1:04d}, and the identifiers of a
  batch are pairwise distinct. The rule is the code's (import_rows_ids with
  import_student_id), but the index form is not looked up in the set of seen
  identifiers: two rows that both provide S0002 get S0002 and S0002 (the second falls
  back to its index form, which is S0002 again), and INSERT OR REPLACE then keeps only
  the second row.
\<close>

theorem import_rows_duplicate_identifier:
  "map_sum id (map student_id)
     (fst (import_rows least_random 0 [row_with_id ''S0002'', row_with_id ''S0002''] {} ())) =
     Inr [''S0002'', ''S0002''] \<and>
   map student_name
     (stored (process_start least_random False False
        (Some [row_with_id ''S0002'', row_with_id ''S0002'']) [])) = [''Kavya Khan'']"
proof -
  have sd: "seed least_random 42 = ()"
    by simp
  have "map_sum id (map student_id)
     (fst (import_rows least_random 0 [row_with_id ''S0002'', row_with_id ''S0002''] {} ())) =
     Inr [''S0002'', ''S0002'']"
    unfolding import_rows_two_rows by (simp add: student_id_import_record)
  moreover have "map student_name
     (stored (process_start least_random False False
        (Some [row_with_id ''S0002'', row_with_id ''S0002'']) [])) = [''Kavya Khan'']"
    unfolding process_start_def sd
    by (simp add: init_database_imported[OF import_rows_two_rows] stored_def insert_or_replace_def
        student_id_import_record student_name_import_record)
  ultimately show ?thesis by (rule conjI)
qed

subsection \<open>Dashboard statistics\<close>

text \<open>
  Claim C7, as the code has it. For every non-empty list of student records, the pass
  rate is 100 times the fraction of records with final_average_score >= 50 (a
  percentage, not the fraction itself), and the at-risk count is the number of records
  with final_average_score < 50 or attendance_percent < 75.
\<close>

theorem pass_rate_percentage:
  "students \<noteq> [] \<longrightarrow>
     pass_rate students = 100 * passing_fraction students \<and>
     at_risk_count students =
       length (filter (\<lambda>s. final_average_score s < 50 \<or> attendance_percent s < 75) students)"
  by (simp add: pass_rate_def passing_fraction_def pass_count_def at_risk_count_def)


theorem pass_rate_percentage_witness:
  "[(student_with_id ''S0001'')\<lparr>final_average_score := 60, attendance_percent := 70\<rparr>,
    (student_with_id ''S0002'')\<lparr>final_average_score := 40, attendance_percent := 90\<rparr>] \<noteq> [] \<and>
   pass_rate [(student_with_id ''S0001'')\<lparr>final_average_score := 60, attendance_percent := 70\<rparr>,
    (student_with_id ''S0002'')\<lparr>final_average_score := 40, attendance_percent := 90\<rparr>] = 50 \<and>
   at_risk_count [(student_with_id ''S0001'')\<lparr>final_average_score := 60, attendance_percent := 70\<rparr>,
    (student_with_id ''S0002'')\<lparr>final_average_score := 40, attendance_percent := 90\<rparr>] = 2"
  using pass_rate_percentage[of "[(student_with_id ''S0001'')\<lparr>final_average_score := 60, attendance_percent := 70\<rparr>,
    (student_with_id ''S0002'')\<lparr>final_average_score := 40, attendance_percent := 90\<rparr>]"]
  by (simp add: passing_fraction_def student_with_id_def)


theorem pass_rate_not_fraction:
  "pass_rate [(student_with_id ''S0001'')\<lparr>final_average_score := 60\<rparr>] = 100 \<and>
   passing_fraction [(student_with_id ''S0001'')\<lparr>final_average_score := 60\<rparr>] = 1 \<and>
   pass_rate [(student_with_id ''S0001'')\<lparr>final_average_score := 60\<rparr>] \<noteq>
   passing_fraction [(student_with_id ''S0001'')\<lparr>final_average_score := 60\<rparr>]"
  by (simp add: pass_rate_def passing_fraction_def pass_count_def)

subsection \<open>Determinism of the import\<close>



subsection \<open>Section capacity\<close>









end
